theory Spec2Isabelle
  imports Main "HOL-Library.Sublist"
begin

section \<open>Form schema (formTypes.ts)\<close>

text \<open>
  The TypeScript object types of \<^verbatim>\<open>formTypes.ts\<close>. An optional property
  (\<^verbatim>\<open>required?: boolean\<close>) is an \<open>option\<close>; \<open>None\<close> is JavaScript's
  \<^verbatim>\<open>undefined\<close>. The numbers \<^verbatim>\<open>minLength\<close> and \<^verbatim>\<open>maxLength\<close> are written by
  the editors with \<^verbatim>\<open>parseInt\<close>, so they are integers here. A dropdown's validation
  object only declares \<^verbatim>\<open>required\<close>; the same record is used for it and the two
  length properties are never read on a dropdown.
\<close>

record validation =
  required :: "bool option"
  minLength :: "int option"
  maxLength :: "int option"

datatype column_type = ColText | ColDropdown

datatype table_mode = Static | Dynamic

record table_column =
  col_id :: string
  col_type :: column_type
  col_label :: string
  col_options :: "string list option"
  col_validation :: "validation option"

text \<open>
  The branching map \<^verbatim>\<open>{ [option: string]: string }\<close> of a dropdown, as the list of its
  entries. A key is looked up with \<open>map_of\<close>, so an entry shadowed by an earlier one with
  the same key is not part of the object.
\<close>

type_synonym condition_map = "(string \<times> string) list"

datatype form_field =
    TextField (field_id: string) (label: string) (validation: "validation option")
  | DropdownField (field_id: string) (label: string) (options: "string list")
      (validation: "validation option") (condition: "condition_map option")
  | TableField (field_id: string) (label: string) (columns: "table_column list")
      (mode: table_mode) (rowLabels: "string list option")

section \<open>Response values\<close>

text \<open>
  The value map is typed \<^verbatim>\<open>any\<close> in the source. The values the preview writes into it
  are strings (text inputs and selects) and arrays of row objects whose cells are strings
  (tables); these two shapes are modelled, under any field id, whatever the kind of the
  field with that id. A key that is absent from the map reads as \<^verbatim>\<open>undefined\<close>.

  An object (the value map, a row, a condition map) is the map of its own properties:
  the properties every JavaScript object inherits (\<^verbatim>\<open>constructor\<close>, \<^verbatim>\<open>toString\<close>, ...)
  are not modelled, so an id or an option with such a name is outside the model. A
  \<open>string\<close> is a list of characters and its \<open>length\<close> the number of them, as
  \<^verbatim>\<open>String.prototype.length\<close> is on the characters of the Basic Multilingual Plane.
\<close>

type_synonym row = "string \<rightharpoonup> string"

datatype response_value = VString string | VArray "row list"

type_synonym response_values = "string \<rightharpoonup> response_value"

datatype js_error = TypeError

section \<open>JavaScript primitives used by the source\<close>

text \<open>Truthiness of a value read from the value map: a string is truthy when it is not
  empty, an array always, \<^verbatim>\<open>undefined\<close> never.\<close>

fun truthy :: "response_value option \<Rightarrow> bool" where
  "truthy None = False"
| "truthy (Some (VString s)) = (s \<noteq> [])"
| "truthy (Some (VArray rs)) = True"

fun js_join :: "string list \<Rightarrow> string" where
  "js_join [] = []"
| "js_join [x] = x"
| "js_join (x # y # ys) = x @ '','' @ js_join (y # ys)"

text \<open>The property key a value is converted to in \<^verbatim>\<open>field.condition[values[field.id]]\<close>:
  a string is its own key, an array of row objects is joined by commas.\<close>

fun property_key :: "response_value \<Rightarrow> string" where
  "property_key (VString s) = s"
| "property_key (VArray rs) = js_join (map (\<lambda>r. ''[object Object]'') rs)"

text \<open>\<^verbatim>\<open>Object.values\<close>: the values of the entries that are not shadowed.\<close>

definition object_values :: "condition_map \<Rightarrow> string list" where
  "object_values c = map snd (filter (\<lambda>kv. map_of c (fst kv) = Some (snd kv)) c)"

text \<open>\<^verbatim>\<open>String.prototype.trim\<close> on the characters of a \<open>string\<close>: tab, line feed,
  vertical tab, form feed, carriage return, space and no-break space are white space.\<close>

definition is_space :: "char \<Rightarrow> bool" where
  "is_space c = (c \<in> set [CHR 0x09, CHR 0x0A, CHR 0x0B, CHR 0x0C, CHR 0x0D, CHR 0x20, CHR 0xA0])"

definition trim :: "string \<Rightarrow> string" where
  "trim s = rev (dropWhile is_space (rev (dropWhile is_space s)))"

text \<open>\<^verbatim>\<open>Array.prototype.findIndex\<close>; \<open>None\<close> is the result \<open>-1\<close>.\<close>

fun findIndex :: "('a \<Rightarrow> bool) \<Rightarrow> 'a list \<Rightarrow> nat option" where
  "findIndex P [] = None"
| "findIndex P (x # xs) = (if P x then Some 0 else map_option Suc (findIndex P xs))"

text \<open>A number in a template literal is printed in decimal.\<close>

fun show_nat :: "nat \<Rightarrow> string" where
  "show_nat n = (if n < 10 then [''0123456789'' ! n]
                 else show_nat (n div 10) @ [''0123456789'' ! (n mod 10)])"

definition show_int :: "int \<Rightarrow> string" where
  "show_int i = (if i < 0 then ''-'' @ show_nat (nat (- i)) else show_nat (nat i))"

text \<open>\<^verbatim>\<open>!value?.trim()\<close> on a value of the value map: \<^verbatim>\<open>undefined\<close> short-circuits
  to \<^verbatim>\<open>undefined\<close>, a string is trimmed, and an array has no \<^verbatim>\<open>trim\<close> method, so the
  call throws.\<close>

fun not_trim :: "response_value option \<Rightarrow> js_error + bool" where
  "not_trim None = Inr True"
| "not_trim (Some (VString s)) = Inr (trim s = [])"
| "not_trim (Some (VArray rs)) = Inl TypeError"

text \<open>\<^verbatim>\<open>value?.length\<close>: the length of a string, the number of rows of an array.\<close>

fun js_length :: "response_value option \<Rightarrow> nat option" where
  "js_length None = None"
| "js_length (Some (VString s)) = Some (length s)"
| "js_length (Some (VArray rs)) = Some (length rs)"

text \<open>\<^verbatim>\<open>v?.minLength && len < v.minLength\<close> and its \<^verbatim>\<open>maxLength\<close> twin: the number
  \<open>0\<close> is falsy and a comparison with \<^verbatim>\<open>undefined\<close> is false.\<close>

definition opt_required :: "validation option \<Rightarrow> bool option" where
  "opt_required v = (case v of None \<Rightarrow> None | Some w \<Rightarrow> required w)"

definition opt_minLength :: "validation option \<Rightarrow> int option" where
  "opt_minLength v = (case v of None \<Rightarrow> None | Some w \<Rightarrow> minLength w)"

definition opt_maxLength :: "validation option \<Rightarrow> int option" where
  "opt_maxLength v = (case v of None \<Rightarrow> None | Some w \<Rightarrow> maxLength w)"

definition below_min :: "int option \<Rightarrow> nat option \<Rightarrow> bool" where
  "below_min m len = (case m of None \<Rightarrow> False
     | Some n \<Rightarrow> n \<noteq> 0 \<and> (case len of None \<Rightarrow> False | Some k \<Rightarrow> int k < n))"

definition above_max :: "int option \<Rightarrow> nat option \<Rightarrow> bool" where
  "above_max m len = (case m of None \<Rightarrow> False
     | Some n \<Rightarrow> n \<noteq> 0 \<and> (case len of None \<Rightarrow> False | Some k \<Rightarrow> int k > n))"

section \<open>Visibility: getVisibleFieldIds\<close>

text \<open>\<^verbatim>\<open>field.type === "dropdown" && field.condition\<close>: an object is truthy even
  when it has no entries.\<close>

fun is_cond_dropdown :: "form_field \<Rightarrow> bool" where
  "is_cond_dropdown (DropdownField i l os v (Some c)) = True"
| "is_cond_dropdown f = False"

text \<open>The first loop: every truthy value of every dropdown's condition map.\<close>

fun field_targets :: "form_field \<Rightarrow> string list" where
  "field_targets (DropdownField i l os v (Some c)) = filter (\<lambda>t. t \<noteq> []) (object_values c)"
| "field_targets f = []"

definition possibleJumpTargets :: "form_field list \<Rightarrow> string set" where
  "possibleJumpTargets fs = set (concat (map field_targets fs))"

text \<open>The body of the second loop at the first dropdown with a condition: the target
  the selected option maps to, when the value is truthy and the target is.\<close>

fun selectedTarget :: "form_field \<Rightarrow> response_values \<Rightarrow> string option" where
  "selectedTarget (DropdownField i l os v (Some c)) vals =
     (if truthy (vals i)
      then (case map_of c (property_key (the (vals i))) of
              None \<Rightarrow> None
            | Some t \<Rightarrow> if t \<noteq> [] then Some t else None)
      else None)"
| "selectedTarget f vals = None"

fun jumpTargetId :: "form_field list \<Rightarrow> response_values \<Rightarrow> string option" where
  "jumpTargetId [] vals = None"
| "jumpTargetId (f # fs) vals =
     (if is_cond_dropdown f then selectedTarget f vals else jumpTargetId fs vals)"

definition jumpDropdownIdx :: "form_field list \<Rightarrow> nat option" where
  "jumpDropdownIdx fs = findIndex is_cond_dropdown fs"

text \<open>\<^verbatim>\<open>jumpTargetId ? fields.findIndex(f => f.id === jumpTargetId) + 1 : jumpDropdownIdx + 1\<close>\<close>

definition afterIdx :: "form_field list \<Rightarrow> string option \<Rightarrow> nat \<Rightarrow> nat" where
  "afterIdx fs jt b =
     (case jt of
        Some t \<Rightarrow> (case findIndex (\<lambda>f. field_id f = t) fs of None \<Rightarrow> 0 | Some k \<Rightarrow> k + 1)
      | None \<Rightarrow> b + 1)"

definition getVisibleFieldIds :: "form_field list \<Rightarrow> response_values \<Rightarrow> string list" where
  "getVisibleFieldIds fs vals =
     (case jumpDropdownIdx fs of
        None \<Rightarrow> map field_id fs
      | Some b \<Rightarrow>
          (let jt = jumpTargetId fs vals in
           [field_id (fs ! b)]
           @ (case jt of Some t \<Rightarrow> [t] | None \<Rightarrow> [])
           @ map field_id
               (filter (\<lambda>f. field_id f \<notin> possibleJumpTargets fs \<or> Some (field_id f) = jt)
                  (drop (afterIdx fs jt b) fs))))"

section \<open>Client validation: validateFormResponse and validate\<close>

text \<open>\<^verbatim>\<open>jumpTargetId && field.id !== jumpTargetId && visibleIdsSet.has(jumpTargetId)\<close>:
  the condition under which the local \<^verbatim>\<open>required\<close> is overwritten with \<^verbatim>\<open>false\<close>.\<close>

definition suppressed :: "string option \<Rightarrow> string list \<Rightarrow> string \<Rightarrow> bool" where
  "suppressed jt visibleFieldIds i =
     (case jt of None \<Rightarrow> False | Some t \<Rightarrow> i \<noteq> t \<and> t \<in> set visibleFieldIds)"

text \<open>The local \<^verbatim>\<open>required\<close> (or \<^verbatim>\<open>colRequired\<close>) as the tests read it: truthy or not.\<close>

definition effectiveRequired ::
  "string option \<Rightarrow> string list \<Rightarrow> string \<Rightarrow> validation option \<Rightarrow> bool" where
  "effectiveRequired jt visibleFieldIds i v =
     (if suppressed jt visibleFieldIds i then False else opt_required v = Some True)"

text \<open>The three tests of a text field. The first one calls \<^verbatim>\<open>trim\<close> only when
  \<^verbatim>\<open>required\<close> is truthy; when it throws, the messages pushed so far are lost with it.\<close>

definition textRules ::
  "string \<Rightarrow> validation option \<Rightarrow> bool \<Rightarrow> response_value option \<Rightarrow> js_error + string list" where
  "textRules lbl v req val =
     (case (if req then not_trim val else Inr False) of
        Inl e \<Rightarrow> Inl e
      | Inr blank \<Rightarrow> Inr (
          (if blank then [lbl @ '' is required.''] else [])
          @ (if below_min (opt_minLength v) (js_length val)
             then [lbl @ '' must be at least '' @ show_int (the (opt_minLength v)) @ '' characters.'']
             else [])
          @ (if above_max (opt_maxLength v) (js_length val)
             then [lbl @ '' must be at most '' @ show_int (the (opt_maxLength v)) @ '' characters.'']
             else [])))"

text \<open>\<^verbatim>\<open>field.options.includes(value)\<close> compares with \<^verbatim>\<open>===\<close>: an array is never equal
  to an option string.\<close>

fun js_includes :: "string list \<Rightarrow> response_value \<Rightarrow> bool" where
  "js_includes os (VString s) = (s \<in> set os)"
| "js_includes os (VArray rs) = False"

definition dropdownRules ::
  "string \<Rightarrow> string list \<Rightarrow> bool \<Rightarrow> response_value option \<Rightarrow> string list" where
  "dropdownRules lbl os req val =
     (if req \<and> \<not> truthy val then [lbl @ '' is required.''] else [])
     @ (if truthy val \<and> \<not> js_includes os (the val) then [lbl @ '' value is not valid.''] else [])"

text \<open>The five tests on one cell of a table, in the order of the source. \<open>cell\<close> is
  \<^verbatim>\<open>row[col.id]\<close>, a string or \<^verbatim>\<open>undefined\<close>; \<open>req\<close> is \<^verbatim>\<open>colRequired\<close>.\<close>

definition cellRules ::
  "string \<Rightarrow> bool \<Rightarrow> nat \<Rightarrow> row \<Rightarrow> table_column \<Rightarrow> string list" where
  "cellRules flabel req rowIdx r col =
     (let cell = r (col_id col);
          len = map_option length cell;
          v = col_validation col;
          pre = col_label col @ '' in '' @ flabel @ '' row '' @ show_nat (rowIdx + 1)
      in
        (if col_type col = ColText \<and> req \<and> (case cell of None \<Rightarrow> True | Some s \<Rightarrow> trim s = [])
         then [pre @ '' is required.''] else [])
      @ (if col_type col = ColText \<and> below_min (opt_minLength v) len
         then [pre @ '' must be at least '' @ show_int (the (opt_minLength v)) @ '' characters.'']
         else [])
      @ (if col_type col = ColText \<and> above_max (opt_maxLength v) len
         then [pre @ '' must be at most '' @ show_int (the (opt_maxLength v)) @ '' characters.'']
         else [])
      @ (if col_type col = ColDropdown \<and> req \<and> (case cell of None \<Rightarrow> True | Some s \<Rightarrow> s = [])
         then [pre @ '' is required.''] else [])
      @ (case cell of
           None \<Rightarrow> []
         | Some s \<Rightarrow>
             (case col_options col of
                None \<Rightarrow> []
              | Some os \<Rightarrow> if s \<noteq> [] \<and> s \<notin> set os then [pre @ '' value is not valid.''] else [])))"

text \<open>\<^verbatim>\<open>value.forEach((row, rowIdx) => field.columns.forEach(col => ...))\<close>\<close>

definition tableRules ::
  "string \<Rightarrow> string option \<Rightarrow> string list \<Rightarrow> string \<Rightarrow> table_column list \<Rightarrow> row list \<Rightarrow> string list" where
  "tableRules flabel jt visibleFieldIds i cols rows =
     concat (map (\<lambda>(rowIdx, r).
        concat (map (\<lambda>col.
           cellRules flabel (effectiveRequired jt visibleFieldIds i (col_validation col)) rowIdx r col)
          cols))
       (enumerate 0 rows))"

text \<open>The callback of \<^verbatim>\<open>form.fields.forEach\<close>: the messages one field pushes.\<close>

fun validateField ::
  "string option \<Rightarrow> string list \<Rightarrow> response_values \<Rightarrow> form_field \<Rightarrow> js_error + string list" where
  "validateField jt visibleFieldIds vals (TextField i l v) =
     (if i \<notin> set visibleFieldIds then Inr []
      else textRules l v (effectiveRequired jt visibleFieldIds i v) (vals i))"
| "validateField jt visibleFieldIds vals (DropdownField i l os v c) =
     (if i \<notin> set visibleFieldIds then Inr []
      else Inr (dropdownRules l os (effectiveRequired jt visibleFieldIds i v) (vals i)))"
| "validateField jt visibleFieldIds vals (TableField i l cols m rl) =
     (if i \<notin> set visibleFieldIds then Inr []
      else (case vals i of
              Some (VArray rows) \<Rightarrow> Inr (tableRules l jt visibleFieldIds i cols rows)
            | _ \<Rightarrow> Inr []))"

fun validateFields ::
  "string option \<Rightarrow> string list \<Rightarrow> response_values \<Rightarrow> form_field list \<Rightarrow> js_error + string list" where
  "validateFields jt visibleFieldIds vals [] = Inr []"
| "validateFields jt visibleFieldIds vals (f # fs) =
     (case validateField jt visibleFieldIds vals f of
        Inl e \<Rightarrow> Inl e
      | Inr es \<Rightarrow>
          (case validateFields jt visibleFieldIds vals fs of
             Inl e \<Rightarrow> Inl e
           | Inr es' \<Rightarrow> Inr (es @ es')))"

text \<open>\<^verbatim>\<open>validateFormResponse(values, form, visibleFieldIds)\<close>, given \<^verbatim>\<open>form.fields\<close>.\<close>

definition validateFormResponse ::
  "response_values \<Rightarrow> form_field list \<Rightarrow> string list \<Rightarrow> js_error + string list" where
  "validateFormResponse vals fs visibleFieldIds =
     validateFields (jumpTargetId fs vals) visibleFieldIds vals fs"

text \<open>\<^verbatim>\<open>validate\<close> of the preview component has the same body and reads the component's
  \<^verbatim>\<open>visibleFieldIds\<close>, the result of \<^verbatim>\<open>getVisibleFieldIds\<close> on the same values.\<close>

definition validate :: "response_values \<Rightarrow> form_field list \<Rightarrow> js_error + string list" where
  "validate vals fs = validateFormResponse vals fs (getVisibleFieldIds fs vals)"

section \<open>Server validation: validateResponse\<close>

definition serverCellRules :: "string \<Rightarrow> row \<Rightarrow> table_column \<Rightarrow> string list" where
  "serverCellRules flabel r col =
     (let cell = r (col_id col);
          req = (opt_required (col_validation col) = Some True)
      in
        (if col_type col = ColText \<and> req \<and> (case cell of None \<Rightarrow> True | Some s \<Rightarrow> trim s = [])
         then [col_label col @ '' in '' @ flabel @ '' is required.''] else [])
      @ (if col_type col = ColDropdown \<and> req \<and> (case cell of None \<Rightarrow> True | Some s \<Rightarrow> s = [])
         then [col_label col @ '' in '' @ flabel @ '' is required.''] else [])
      @ (case cell of
           None \<Rightarrow> []
         | Some s \<Rightarrow>
             (case col_options col of
                None \<Rightarrow> []
              | Some os \<Rightarrow>
                  if s \<noteq> [] \<and> s \<notin> set os
                  then [col_label col @ '' in '' @ flabel @ '' value is not valid.''] else [])))"

definition serverTableRules :: "string \<Rightarrow> table_column list \<Rightarrow> row list \<Rightarrow> string list" where
  "serverTableRules flabel cols rows =
     concat (map (\<lambda>r. concat (map (serverCellRules flabel r) cols)) rows)"

text \<open>The first test of the server's callback, on every field:
  \<^verbatim>\<open>if (!field.label?.trim()) errors.push(`Field label missing for ${field.id}`)\<close>\<close>

definition labelRule :: "form_field \<Rightarrow> string list" where
  "labelRule f =
     (if trim (label f) = [] then [''Field label missing for '' @ field_id f] else [])"

fun serverTypeRules :: "response_values \<Rightarrow> form_field \<Rightarrow> js_error + string list" where
  "serverTypeRules vals (TextField i l v) = textRules l v (opt_required v = Some True) (vals i)"
| "serverTypeRules vals (DropdownField i l os v c) =
     Inr (dropdownRules l os (opt_required v = Some True) (vals i))"
| "serverTypeRules vals (TableField i l cols m rl) =
     (case vals i of
        Some (VArray rows) \<Rightarrow> Inr (serverTableRules l cols rows)
      | _ \<Rightarrow> Inr [])"

definition serverField :: "response_values \<Rightarrow> form_field \<Rightarrow> js_error + string list" where
  "serverField vals f =
     (case serverTypeRules vals f of Inl e \<Rightarrow> Inl e | Inr es \<Rightarrow> Inr (labelRule f @ es))"

fun validateResponse :: "form_field list \<Rightarrow> response_values \<Rightarrow> js_error + string list" where
  "validateResponse [] vals = Inr []"
| "validateResponse (f # fs) vals =
     (case serverField vals f of
        Inl e \<Rightarrow> Inl e
      | Inr es \<Rightarrow>
          (case validateResponse fs vals of
             Inl e \<Rightarrow> Inl e
           | Inr es' \<Rightarrow> Inr (es @ es')))"

section \<open>Predicates and reference definitions used in the statements\<close>

text \<open>\<^verbatim>\<open>Array.isArray(value)\<close> and \<^verbatim>\<open>field.type === "table"\<close>.\<close>

fun isArray :: "response_value option \<Rightarrow> bool" where
  "isArray (Some (VArray rs)) = True"
| "isArray v = False"

fun is_table :: "form_field \<Rightarrow> bool" where
  "is_table (TableField i l cols m rl) = True"
| "is_table f = False"

text \<open>
  The server-side validator as the specification words it: the client-side validator
  applied with every field id visible and with no jump target, hence no suppression of
  \<^verbatim>\<open>required\<close>. It is compared with \<open>validateResponse\<close>, which is translated from the
  server's source.
\<close>

definition spec_validateResponse ::
  "form_field list \<Rightarrow> response_values \<Rightarrow> js_error + string list" where
  "spec_validateResponse fs vals = validateFields None (map field_id fs) vals fs"

section \<open>Concrete forms and value maps\<close>

definition required_only :: validation where
  "required_only = \<lparr>required = Some True, minLength = None, maxLength = None\<rparr>"

text \<open>The form of the specification's scenarios A and B: a dropdown \<open>D\<close> whose option
  \<open>Yes\<close> jumps to \<open>Q2\<close>, followed by the required text fields \<open>Q1\<close> and \<open>Q2\<close>.\<close>

definition scenario_fields :: "form_field list" where
  "scenario_fields =
     [DropdownField ''D'' ''Pick'' [''Yes'', ''No''] None (Some [(''Yes'', ''Q2'')]),
      TextField ''Q1'' ''First'' (Some required_only),
      TextField ''Q2'' ''Second'' (Some required_only)]"

definition no_values :: response_values where
  "no_values = Map.empty"

definition yes_values :: response_values where
  "yes_values = [''D'' \<mapsto> VString ''Yes'']"

text \<open>A dropdown whose condition map is defined and empty, after a text field; and the
  same pair with the condition map left undefined.\<close>

definition empty_condition_fields :: "form_field list" where
  "empty_condition_fields =
     [TextField ''Q1'' ''First'' None,
      DropdownField ''D'' ''Pick'' [''Yes'', ''No''] None (Some [])]"

definition plain_fields :: "form_field list" where
  "plain_fields =
     [TextField ''Q1'' ''First'' None,
      DropdownField ''D'' ''Pick'' [''Yes'', ''No''] None None]"

text \<open>The jump target \<open>Q1\<close> in front of the branching dropdown, one field between them.\<close>

definition backward_fields :: "form_field list" where
  "backward_fields =
     [TextField ''Q1'' ''First'' None,
      TextField ''Q0'' ''Middle'' None,
      DropdownField ''D'' ''Pick'' [''Yes'', ''No''] None (Some [(''Yes'', ''Q1'')])]"

text \<open>A table with one required column. The column of \<open>choice_table\<close> is a dropdown with
  the options \<open>A\<close> and \<open>B\<close>; the column of \<open>text_choice_table\<close> is the same but typed as
  text; \<open>short_table\<close> has a text column with a minimal length; \<open>unlabelled_table\<close> is
  \<open>choice_table\<close> with an empty label.\<close>

definition choice_column :: table_column where
  "choice_column =
     \<lparr>col_id = ''c'', col_type = ColDropdown, col_label = ''Col'',
      col_options = Some [''A'', ''B''], col_validation = Some required_only\<rparr>"

definition choice_table :: form_field where
  "choice_table = TableField ''T'' ''Tab'' [choice_column] Dynamic None"

definition text_choice_table :: form_field where
  "text_choice_table =
     TableField ''T'' ''Tab'' [choice_column\<lparr>col_type := ColText\<rparr>] Dynamic None"

definition short_table :: form_field where
  "short_table =
     TableField ''T'' ''Tab''
       [\<lparr>col_id = ''c'', col_type = ColText, col_label = ''Col'', col_options = None,
         col_validation = Some \<lparr>required = None, minLength = Some 3, maxLength = None\<rparr>\<rparr>]
       Dynamic None"

definition unlabelled_table :: form_field where
  "unlabelled_table = TableField ''T'' [] [choice_column] Dynamic None"

definition two_rows :: response_values where
  "two_rows = [''T'' \<mapsto> VArray [Map.empty, [''c'' \<mapsto> ''C'']]]"

definition short_row :: response_values where
  "short_row = [''T'' \<mapsto> VArray [[''c'' \<mapsto> ''ab'']]]"

text \<open>The scenario form followed by \<open>choice_table\<close>, with \<open>Yes\<close> selected and one
  valid row entered.\<close>

definition mixed_fields :: "form_field list" where
  "mixed_fields = scenario_fields @ [choice_table]"

definition mixed_values :: response_values where
  "mixed_values = [''D'' \<mapsto> VString ''Yes'', ''T'' \<mapsto> VArray [[''c'' \<mapsto> ''A'']]]"

text \<open>Two dropdowns with condition maps: the first maps \<open>Yes\<close> to \<open>Q2\<close> and \<open>No\<close> to
  \<open>Q1\<close>, the second, further down, maps \<open>X\<close> to \<open>Q5\<close>.\<close>

definition two_branch_fields :: "form_field list" where
  "two_branch_fields =
     [TextField ''Q0'' ''Intro'' None,
      DropdownField ''D'' ''Pick'' [''Yes'', ''No''] None (Some [(''Yes'', ''Q2''), (''No'', ''Q1'')]),
      TextField ''Q1'' ''First'' None,
      TextField ''Q2'' ''Second'' None,
      TextField ''Q3'' ''Third'' None,
      DropdownField ''E'' ''Next'' [''X''] None (Some [(''X'', ''Q5'')]),
      TextField ''Q5'' ''Fifth'' None,
      TextField ''Q6'' ''Sixth'' None]"

text \<open>A text field whose label is two spaces.\<close>

definition blank_label_field :: form_field where
  "blank_label_field = TextField ''Q9'' ''  '' None"

section \<open>Auxiliary facts\<close>

declare show_nat.simps [simp del]

lemma findIndex_None_iff: "findIndex P xs = None \<longleftrightarrow> (\<forall>x\<in>set xs. \<not> P x)"
  by (induction xs) auto

lemma findIndex_first:
  "\<forall>x\<in>set pre. \<not> P x \<Longrightarrow> P b \<Longrightarrow> findIndex P (pre @ b # post) = Some (length pre)"
  by (induction pre) auto

lemma jumpTargetId_first:
  "\<forall>f\<in>set pre. \<not> is_cond_dropdown f \<Longrightarrow> is_cond_dropdown b \<Longrightarrow>
   jumpTargetId (pre @ b # post) vals = selectedTarget b vals"
  by (induction pre) auto

lemma selectedTarget_unset:
  "vals (field_id b) = None \<Longrightarrow> selectedTarget b vals = None"
  by (cases "(b, vals)" rule: selectedTarget.cases) auto

lemma validateField_hidden:
  "field_id f \<notin> set vis \<Longrightarrow> validateField jt vis vals f = Inr []"
  by (cases f) simp_all

lemma validateFields_filter:
  "validateFields jt vis vals fs =
   validateFields jt vis vals (filter (\<lambda>f. field_id f \<in> set vis) fs)"
  by (induction fs) (simp_all add: validateField_hidden split: sum.splits)

lemma validateFields_member:
  "validateFields jt vis vals fs = Inr errs \<Longrightarrow> f \<in> set fs \<Longrightarrow>
   \<exists>es. validateField jt vis vals f = Inr es \<and> set es \<subseteq> set errs"
  by (induction fs arbitrary: errs) (fastforce split: sum.splits)+

text \<open>No message of the two length rules and of the membership rule ends like the
  message of the required rule.\<close>

lemma suffix_same_length:
  "suffix xs (ys @ zs) \<Longrightarrow> length xs = length zs \<Longrightarrow> xs = zs"
  by (auto simp: suffix_def)

lemma required_suffix: "suffix '' is required.'' m \<Longrightarrow> suffix ''red.'' m"
proof -
  assume "suffix '' is required.'' m"
  moreover have "suffix ''red.'' '' is required.''"
    by (simp add: suffix_def)
  ultimately show ?thesis by (rule suffix_order.trans[rotated])
qed

lemma not_required_chars: "\<not> suffix '' is required.'' (p @ '' characters.'')"
proof
  assume "suffix '' is required.'' (p @ '' characters.'')"
  then have "suffix ''red.'' ((p @ '' charact'') @ ''ers.'')" using required_suffix by simp
  then have "''red.'' = ''ers.''" by (rule suffix_same_length) simp
  then show False by simp
qed

lemma not_required_valid: "\<not> suffix '' is required.'' (p @ '' value is not valid.'')"
proof
  assume "suffix '' is required.'' (p @ '' value is not valid.'')"
  then have "suffix ''red.'' ((p @ '' value is not va'') @ ''lid.'')" using required_suffix by simp
  then have "''red.'' = ''lid.''" by (rule suffix_same_length) simp
  then show False by simp
qed

lemma effectiveRequired_suppressed:
  "t \<in> set vis \<Longrightarrow> i \<noteq> t \<Longrightarrow> effectiveRequired (Some t) vis i v = False"
  by (simp add: effectiveRequired_def suppressed_def)

lemma textRules_not_required:
  "\<exists>es. textRules l v False val = Inr es \<and> (\<forall>m\<in>set es. \<not> suffix '' is required.'' m)"
  using not_required_chars[of "l @ '' must be at least '' @ show_int (the (opt_minLength v))"]
    not_required_chars[of "l @ '' must be at most '' @ show_int (the (opt_maxLength v))"]
  by (auto simp: textRules_def)

lemma dropdownRules_not_required:
  "\<forall>m\<in>set (dropdownRules l os False val). \<not> suffix '' is required.'' m"
  using not_required_valid[of l] by (auto simp: dropdownRules_def)

lemma cellRules_not_required:
  "\<forall>m\<in>set (cellRules fl False n r col). \<not> suffix '' is required.'' m"
  using not_required_chars[of "col_label col @ '' in '' @ fl @ '' row '' @ show_nat (n + 1) @ '' must be at least '' @ show_int (the (opt_minLength (col_validation col)))"]
    not_required_chars[of "col_label col @ '' in '' @ fl @ '' row '' @ show_nat (n + 1) @ '' must be at most '' @ show_int (the (opt_maxLength (col_validation col)))"]
    not_required_valid[of "col_label col @ '' in '' @ fl @ '' row '' @ show_nat (n + 1)"]
  by (auto simp: cellRules_def Let_def split: option.splits)

lemma tableRules_not_required:
  assumes "t \<in> set vis" "i \<noteq> t"
  shows "\<forall>m\<in>set (tableRules fl (Some t) vis i cols rows). \<not> suffix '' is required.'' m"
  using cellRules_not_required
  by (auto simp: tableRules_def effectiveRequired_suppressed[OF assms])

text \<open>The messages of a table are those of its cells.\<close>

lemma tableRules_cell:
  assumes "n < length rows" "col \<in> set cols"
  shows "set (cellRules fl (effectiveRequired jt vis i (col_validation col)) n (rows ! n) col)
         \<subseteq> set (tableRules fl jt vis i cols rows)"
proof -
  have "(n, rows ! n) \<in> set (enumerate 0 rows)"
    using assms(1) by (simp add: in_set_enumerate_eq)
  then show ?thesis using assms(2)
    unfolding tableRules_def set_concat set_map by fastforce
qed

lemma tableRules_Nil_iff:
  "tableRules fl jt vis i cols rows = [] \<longleftrightarrow>
   (\<forall>n<length rows. \<forall>col\<in>set cols.
      cellRules fl (effectiveRequired jt vis i (col_validation col)) n (rows ! n) col = [])"
proof
  assume "tableRules fl jt vis i cols rows = []"
  then show "\<forall>n<length rows. \<forall>col\<in>set cols.
      cellRules fl (effectiveRequired jt vis i (col_validation col)) n (rows ! n) col = []"
    using tableRules_cell[of _ rows _ cols fl jt vis i] by fastforce
next
  assume a: "\<forall>n<length rows. \<forall>col\<in>set cols.
      cellRules fl (effectiveRequired jt vis i (col_validation col)) n (rows ! n) col = []"
  show "tableRules fl jt vis i cols rows = []"
    unfolding tableRules_def concat_eq_Nil_conv
    using a by (auto simp: in_set_enumerate_eq)
qed

lemma serverTableRules_Nil_iff:
  "serverTableRules fl cols rows = [] \<longleftrightarrow>
   (\<forall>r\<in>set rows. \<forall>col\<in>set cols. serverCellRules fl r col = [])"
  by (auto simp: serverTableRules_def)

lemma cellRules_membership:
  assumes "r (col_id col) = Some cell" "cell \<noteq> []" "col_options col = Some os" "cell \<notin> set os"
  shows "col_label col @ '' in '' @ fl @ '' row '' @ show_nat (n + 1) @ '' value is not valid.''
         \<in> set (cellRules fl req n r col)"
  using assms by (simp add: cellRules_def Let_def)

lemma validateField_table_not_array:
  "\<not> isArray (vals i) \<Longrightarrow> validateField jt vis vals (TableField i l cols m rl) = Inr []"
  by (cases "vals i" rule: isArray.cases) simp_all

lemma serverTypeRules_table_not_array:
  "\<not> isArray (vals i) \<Longrightarrow> serverTypeRules vals (TableField i l cols m rl) = Inr []"
  by (cases "vals i" rule: isArray.cases) simp_all

text \<open>A cell that passes the client's rules passes the server's, and where the table
  rule is silent the server and the client run the same tests on a field.\<close>

lemma serverCellRules_Nil:
  "cellRules fl (opt_required (col_validation col) = Some True) n r col = [] \<Longrightarrow>
   serverCellRules fl r col = []"
  by (auto simp: cellRules_def serverCellRules_def Let_def split: option.splits if_splits)

lemma serverTableRules_Nil:
  assumes "tableRules fl None vis i cols rows = []"
  shows "serverTableRules fl cols rows = []"
proof -
  have "serverCellRules fl r col = []" if "r \<in> set rows" "col \<in> set cols" for r col
  proof -
    from that(1) obtain n where n: "n < length rows" "rows ! n = r"
      by (auto simp: in_set_conv_nth)
    with assms that(2)
    have "cellRules fl (effectiveRequired None vis i (col_validation col)) n r col = []"
      by (auto simp: tableRules_Nil_iff)
    then show ?thesis
      by (intro serverCellRules_Nil[of fl col n r]) (simp add: effectiveRequired_def suppressed_def)
  qed
  then show ?thesis by (simp add: serverTableRules_Nil_iff)
qed

lemma serverField_eq:
  assumes "trim (label f) \<noteq> []" and "field_id f \<in> set vis"
    and "is_table f \<longrightarrow> validateField None vis vals f = Inr []"
  shows "serverField vals f = validateField None vis vals f"
proof (cases f)
  case (TextField i l v)
  then show ?thesis using assms
    by (auto simp: serverField_def labelRule_def effectiveRequired_def suppressed_def
        split: sum.splits)
next
  case (DropdownField i l os v c)
  then show ?thesis using assms
    by (auto simp: serverField_def labelRule_def effectiveRequired_def suppressed_def)
next
  case (TableField i l cols m rl)
  with assms have ok: "validateField None vis vals (TableField i l cols m rl) = Inr []"
    and vis: "i \<in> set vis" by simp_all
  have "serverTypeRules vals (TableField i l cols m rl) = Inr []"
  proof (cases "isArray (vals i)")
    case True
    then obtain rows where rows: "vals i = Some (VArray rows)"
      by (cases "vals i" rule: isArray.cases) auto
    with ok vis have "tableRules l None vis i cols rows = []" by simp
    then show ?thesis by (simp add: rows serverTableRules_Nil)
  next
    case False
    then show ?thesis by (rule serverTypeRules_table_not_array)
  qed
  then show ?thesis
    using assms(1) ok by (simp add: serverField_def labelRule_def TableField)
qed

lemma validateResponse_eq:
  assumes "\<forall>f\<in>set fs. trim (label f) \<noteq> [] \<and> (is_table f \<longrightarrow> validateField None vis vals f = Inr [])"
    and "field_id ` set fs \<subseteq> set vis"
  shows "validateResponse fs vals = validateFields None vis vals fs"
  using assms
proof (induction fs)
  case Nil
  then show ?case by simp
next
  case (Cons f fs)
  then have "serverField vals f = validateField None vis vals f"
    by (intro serverField_eq) auto
  with Cons show ?case by (simp split: sum.splits)
qed

text \<open>The set the first loop collects, in plain terms: the non-empty values of the
  entries of any dropdown's condition map.\<close>

lemma object_values_iff: "x \<in> set (object_values c) \<longleftrightarrow> (\<exists>k. map_of c k = Some x)"
proof
  assume "x \<in> set (object_values c)"
  then show "\<exists>k. map_of c k = Some x" by (auto simp: object_values_def)
next
  assume "\<exists>k. map_of c k = Some x"
  then obtain k where k: "map_of c k = Some x" ..
  then have "(k, x) \<in> set c" by (rule map_of_SomeD)
  with k show "x \<in> set (object_values c)" by (force simp: object_values_def)
qed

lemma field_targets_iff:
  "x \<in> set (field_targets f) \<longleftrightarrow>
   x \<noteq> [] \<and> (\<exists>i l os v c k. f = DropdownField i l os v (Some c) \<and> map_of c k = Some x)"
  by (cases f rule: field_targets.cases) (auto simp: object_values_iff)

lemma possibleJumpTargets_iff:
  "x \<in> possibleJumpTargets fs \<longleftrightarrow>
   x \<noteq> [] \<and> (\<exists>i l os v c k. DropdownField i l os v (Some c) \<in> set fs \<and> map_of c k = Some x)"
  unfolding possibleJumpTargets_def set_concat set_map
  by (simp add: field_targets_iff) blast

text \<open>A jump target that is not among the visible ids suppresses nothing.\<close>

lemma effectiveRequired_hidden_target:
  "t \<notin> set vis \<Longrightarrow> effectiveRequired (Some t) vis i v = (opt_required v = Some True)"
  by (simp add: effectiveRequired_def suppressed_def)

lemma effectiveRequired_None:
  "effectiveRequired None vis i v = (opt_required v = Some True)"
  by (simp add: effectiveRequired_def suppressed_def)

lemma validateField_hidden_target:
  "t \<notin> set vis \<Longrightarrow> validateField (Some t) vis vals f = validateField None vis vals f"
  by (cases f)
     (simp_all add: effectiveRequired_hidden_target effectiveRequired_None tableRules_def
        split: option.splits response_value.splits)

text \<open>The server's messages for one field, against the client's and within the whole
  result.\<close>

lemma validateResponse_member:
  "validateResponse fs vals = Inr errs \<Longrightarrow> f \<in> set fs \<Longrightarrow>
   \<exists>es. serverField vals f = Inr es \<and> set es \<subseteq> set errs"
  by (induction fs arbitrary: errs) (fastforce split: sum.splits)+

lemma serverField_client:
  assumes "field_id f \<in> set vis"
    and "is_table f \<longrightarrow> validateField None vis vals f = Inr []"
  shows "serverField vals f =
         (case validateField None vis vals f of
            Inl e \<Rightarrow> Inl e
          | Inr es \<Rightarrow> Inr ((if trim (label f) = [] then [''Field label missing for '' @ field_id f]
                            else []) @ es))"
proof (cases f)
  case (TextField i l v)
  then show ?thesis using assms
    by (auto simp: serverField_def labelRule_def effectiveRequired_def suppressed_def
        split: sum.splits)
next
  case (DropdownField i l os v c)
  then show ?thesis using assms
    by (auto simp: serverField_def labelRule_def effectiveRequired_def suppressed_def)
next
  case (TableField i l cols m rl)
  with assms have ok: "validateField None vis vals (TableField i l cols m rl) = Inr []"
    and vis: "i \<in> set vis" by simp_all
  have "serverTypeRules vals (TableField i l cols m rl) = Inr []"
  proof (cases "isArray (vals i)")
    case True
    then obtain rows where rows: "vals i = Some (VArray rows)"
      by (cases "vals i" rule: isArray.cases) auto
    with ok vis have "tableRules l None vis i cols rows = []" by simp
    then show ?thesis by (simp add: rows serverTableRules_Nil)
  next
    case False
    then show ?thesis by (rule serverTypeRules_table_not_array)
  qed
  then show ?thesis
    using ok by (simp add: serverField_def labelRule_def TableField)
qed

lemma serverField_label:
  assumes "trim (label f) = []" and "serverField vals f = Inr es"
  shows "\<exists>rest. es = (''Field label missing for '' @ field_id f) # rest"
  using assms by (auto simp: serverField_def labelRule_def split: sum.splits)

text \<open>When the rules of a cell push a message, test by test.\<close>

lemma cellRules_violation:
  "cellRules fl req n r col \<noteq> [] \<longleftrightarrow>
     (col_type col = ColText \<and> req
        \<and> (r (col_id col) = None \<or> (\<exists>s. r (col_id col) = Some s \<and> trim s = [])))
   \<or> (col_type col = ColText
        \<and> (\<exists>s w k. r (col_id col) = Some s \<and> col_validation col = Some w
              \<and> minLength w = Some k \<and> k \<noteq> 0 \<and> int (length s) < k))
   \<or> (col_type col = ColText
        \<and> (\<exists>s w k. r (col_id col) = Some s \<and> col_validation col = Some w
              \<and> maxLength w = Some k \<and> k \<noteq> 0 \<and> k < int (length s)))
   \<or> (col_type col = ColDropdown \<and> req
        \<and> (r (col_id col) = None \<or> r (col_id col) = Some []))
   \<or> (\<exists>s os. r (col_id col) = Some s \<and> s \<noteq> [] \<and> col_options col = Some os \<and> s \<notin> set os)"
  by (cases "r (col_id col)"; cases "col_options col"; cases "col_validation col";
      cases "col_type col")
     (auto simp: cellRules_def Let_def below_min_def above_max_def opt_minLength_def
        opt_maxLength_def split: option.splits)

lemma serverCellRules_violation:
  "serverCellRules fl r col \<noteq> [] \<longleftrightarrow>
     (col_type col = ColText \<and> (\<exists>w. col_validation col = Some w \<and> required w = Some True)
        \<and> (r (col_id col) = None \<or> (\<exists>s. r (col_id col) = Some s \<and> trim s = [])))
   \<or> (col_type col = ColDropdown \<and> (\<exists>w. col_validation col = Some w \<and> required w = Some True)
        \<and> (r (col_id col) = None \<or> r (col_id col) = Some []))
   \<or> (\<exists>s os. r (col_id col) = Some s \<and> s \<noteq> [] \<and> col_options col = Some os \<and> s \<notin> set os)"
  by (cases "r (col_id col)"; cases "col_options col"; cases "col_validation col";
      cases "col_type col")
     (auto simp: serverCellRules_def Let_def opt_required_def split: option.splits)

lemma effectiveRequired_plain:
  "effectiveRequired jt vis i v \<longleftrightarrow>
   (\<exists>w. v = Some w \<and> required w = Some True) \<and> \<not> (\<exists>t. jt = Some t \<and> i \<noteq> t \<and> t \<in> set vis)"
  by (auto simp: effectiveRequired_def suppressed_def opt_required_def split: option.splits)

lemma client_cell_violation:
  "cellRules fl (effectiveRequired jt vis i (col_validation col)) n r col \<noteq> [] \<longleftrightarrow>
     (col_type col = ColText
        \<and> (\<exists>w. col_validation col = Some w \<and> required w = Some True)
        \<and> \<not> (\<exists>t. jt = Some t \<and> i \<noteq> t \<and> t \<in> set vis)
        \<and> (r (col_id col) = None \<or> (\<exists>s. r (col_id col) = Some s \<and> trim s = [])))
   \<or> (col_type col = ColText
        \<and> (\<exists>s w k. r (col_id col) = Some s \<and> col_validation col = Some w
              \<and> minLength w = Some k \<and> k \<noteq> 0 \<and> int (length s) < k))
   \<or> (col_type col = ColText
        \<and> (\<exists>s w k. r (col_id col) = Some s \<and> col_validation col = Some w
              \<and> maxLength w = Some k \<and> k \<noteq> 0 \<and> k < int (length s)))
   \<or> (col_type col = ColDropdown
        \<and> (\<exists>w. col_validation col = Some w \<and> required w = Some True)
        \<and> \<not> (\<exists>t. jt = Some t \<and> i \<noteq> t \<and> t \<in> set vis)
        \<and> (r (col_id col) = None \<or> r (col_id col) = Some []))
   \<or> (\<exists>s os. r (col_id col) = Some s \<and> s \<noteq> [] \<and> col_options col = Some os \<and> s \<notin> set os)"
  unfolding cellRules_violation effectiveRequired_plain by (simp only: conj_assoc)

lemma ex_set_nth: "(\<exists>r\<in>set rows. Q r) \<longleftrightarrow> (\<exists>n<length rows. Q (rows ! n))"
  by (metis in_set_conv_nth)

lemma cell_quantifiers:
  "(\<exists>rows. v = Some (VArray rows) \<and> (\<exists>n<length rows. \<exists>col\<in>set cols. P rows n col)) \<longleftrightarrow>
   (\<exists>rows n col. v = Some (VArray rows) \<and> n < length rows \<and> col \<in> set cols \<and> P rows n col)"
  by blast

lemma serverTableRules_cell:
  "r \<in> set rows \<Longrightarrow> col \<in> set cols \<Longrightarrow>
   set (serverCellRules fl r col) \<subseteq> set (serverTableRules fl cols rows)"
  unfolding serverTableRules_def set_concat set_map by fastforce

section \<open>The visible fields\<close>

text \<open>
  C1 (amended). Take a field list whose first dropdown with a defined condition map is
  \<open>b\<close>, at any position, and a value map in which the id of \<open>b\<close> is unset. Then
  \<open>getVisibleFieldIds\<close> returns the id of \<open>b\<close> followed by the ids of the fields after
  \<open>b\<close>, in their original order, except those ids that are non-empty and are the value of
  some entry of the condition map of some dropdown of the list. The fields after the
  branch point that no condition map names are therefore listed; only the targets, of
  any dropdown, are held back. This covers in particular every list with exactly one
  dropdown carrying a condition map.
\<close>

theorem resolve_unset:
  assumes "\<forall>f\<in>set pre. \<not> is_cond_dropdown f" and "is_cond_dropdown b"
    and "vals (field_id b) = None"
  shows "getVisibleFieldIds (pre @ b # post) vals =
         field_id b # map field_id
           (filter (\<lambda>f. \<not> (field_id f \<noteq> [] \<and>
                        (\<exists>i l os v c k. DropdownField i l os v (Some c) \<in> set (pre @ b # post)
                                       \<and> map_of c k = Some (field_id f))))
              post)"
  using assms
  by (simp add: getVisibleFieldIds_def jumpDropdownIdx_def findIndex_first jumpTargetId_first
      selectedTarget_unset afterIdx_def possibleJumpTargets_iff)

text \<open>The amended statement at \<open>two_branch_fields\<close> with no value entered: \<open>Q1\<close> and
  \<open>Q2\<close>, targets of the first dropdown, and \<open>Q5\<close>, target of the second, are held back.\<close>

theorem resolve_unset_witness:
  "no_values ''D'' = None
   \<and> getVisibleFieldIds two_branch_fields no_values = [''D'', ''Q3'', ''E'', ''Q6'']"
proof -
  have pj: "possibleJumpTargets two_branch_fields = {''Q1'', ''Q2'', ''Q5''}"
    by (auto simp: two_branch_fields_def possibleJumpTargets_def object_values_def)
  have "getVisibleFieldIds two_branch_fields no_values =
      ''D'' # map field_id (filter (\<lambda>f. field_id f \<notin> possibleJumpTargets two_branch_fields)
         (drop 2 two_branch_fields))"
    using resolve_unset[of "[TextField ''Q0'' ''Intro'' None]"
      "DropdownField ''D'' ''Pick'' [''Yes'', ''No''] None (Some [(''Yes'', ''Q2''), (''No'', ''Q1'')])"
      no_values "drop 2 two_branch_fields"]
    unfolding possibleJumpTargets_iff
    by (simp add: two_branch_fields_def no_values_def)
  then show ?thesis
    unfolding pj by (simp add: two_branch_fields_def no_values_def)
qed

text \<open>
  The specification's scenario B: \<open>scenario_fields\<close> has exactly one dropdown with a
  condition map, nothing is selected, and the result lists \<open>Q1\<close> after \<open>D\<close>.
\<close>

theorem resolve_unset_counterexample:
  "filter is_cond_dropdown scenario_fields = [scenario_fields ! 0]
   \<and> no_values (field_id (scenario_fields ! 0)) = None
   \<and> getVisibleFieldIds scenario_fields no_values = [''D'', ''Q1'']
   \<and> getVisibleFieldIds scenario_fields no_values \<noteq> [field_id (scenario_fields ! 0)]"
  by (simp add: scenario_fields_def no_values_def getVisibleFieldIds_def jumpDropdownIdx_def
      afterIdx_def possibleJumpTargets_def object_values_def)

text \<open>
  C2 (amended). For every field list in which no dropdown carries a defined condition
  map, and for every value map, \<open>getVisibleFieldIds\<close> returns all field ids in their
  original order.
\<close>

theorem resolve_no_condition:
  assumes "\<forall>f\<in>set fs. \<not> is_cond_dropdown f"
  shows "getVisibleFieldIds fs vals = map field_id fs"
  using assms
  by (simp add: getVisibleFieldIds_def jumpDropdownIdx_def findIndex_None_iff[THEN iffD2])

text \<open>The amended statement at \<open>plain_fields\<close>.\<close>

theorem resolve_no_condition_witness:
  "getVisibleFieldIds plain_fields yes_values = [''Q1'', ''D'']"
  using resolve_no_condition[of plain_fields yes_values]
  by (simp add: plain_fields_def)

text \<open>
  A dropdown whose condition map is defined and empty is the branch point: the text
  field in front of it is not listed.
\<close>

theorem resolve_empty_condition_counterexample:
  "condition (empty_condition_fields ! 1) = Some []
   \<and> filter is_cond_dropdown empty_condition_fields = [empty_condition_fields ! 1]
   \<and> getVisibleFieldIds empty_condition_fields no_values = [''D'']
   \<and> getVisibleFieldIds empty_condition_fields no_values \<noteq> map field_id empty_condition_fields"
  by (simp add: empty_condition_fields_def no_values_def getVisibleFieldIds_def
      jumpDropdownIdx_def afterIdx_def possibleJumpTargets_def object_values_def)

text \<open>
  C3. Let \<open>b\<close> be the first dropdown with a condition map, and let the option selected
  for \<open>b\<close> map to the id of a field \<open>t\<close> positioned after \<open>b\<close>, no other field of the
  list having this id (ids are unique in the data model). Then \<open>getVisibleFieldIds\<close>
  returns the id of \<open>b\<close>, then the id of \<open>t\<close>, then the ids of the fields after \<open>t\<close>, in
  their original order, except exactly those ids that are non-empty and are the value of
  some entry of the condition map of some dropdown of the list.
\<close>

theorem resolve_selected:
  assumes fs: "fs = pre @ [b] @ mid @ [t] @ post"
    and once: "\<forall>f\<in>set (pre @ [b] @ mid @ post). field_id f \<noteq> field_id t"
    and pre: "\<forall>f\<in>set pre. \<not> is_cond_dropdown f"
    and b: "b = DropdownField i l os v (Some c)"
    and sel: "vals i = Some (VString s)" "s \<noteq> []"
    and tgt: "map_of c s = Some (field_id t)" "field_id t \<noteq> []"
  shows "getVisibleFieldIds fs vals =
         field_id b # field_id t # map field_id
           (filter (\<lambda>f. \<not> (field_id f \<noteq> [] \<and>
                        (\<exists>i' l' os' v' c' k. DropdownField i' l' os' v' (Some c') \<in> set fs
                                            \<and> map_of c' k = Some (field_id f))))
              post)"
proof -
  have bc: "is_cond_dropdown b" using b by simp
  have idx: "jumpDropdownIdx fs = Some (length pre)"
    using findIndex_first[OF pre bc] by (simp add: jumpDropdownIdx_def fs)
  have jt: "jumpTargetId fs vals = Some (field_id t)"
    using jumpTargetId_first[OF pre bc, of "mid @ [t] @ post" vals] sel tgt by (simp add: fs b)
  have nth: "fs ! length pre = b" by (simp add: fs)
  have notbefore: "\<forall>f\<in>set (pre @ [b] @ mid). \<not> field_id f = field_id t"
    using once by auto
  have "findIndex (\<lambda>f. field_id f = field_id t) ((pre @ [b] @ mid) @ t # post)
        = Some (length (pre @ [b] @ mid))"
    by (rule findIndex_first[OF notbefore]) simp
  then have after: "afterIdx fs (Some (field_id t)) (length pre) = length (pre @ [b] @ mid) + 1"
    by (simp add: afterIdx_def fs)
  have drop: "drop (length (pre @ [b] @ mid) + 1) fs = post"
    by (simp add: fs)
  have notafter: "\<forall>f\<in>set post. field_id f \<noteq> field_id t"
    using once by auto
  have filt: "filter (\<lambda>f. field_id f \<notin> possibleJumpTargets fs \<or> Some (field_id f) = Some (field_id t)) post
      = filter (\<lambda>f. \<not> (field_id f \<noteq> [] \<and>
                        (\<exists>i' l' os' v' c' k. DropdownField i' l' os' v' (Some c') \<in> set fs
                                            \<and> map_of c' k = Some (field_id f)))) post"
    using notafter by (intro filter_cong) (auto simp: possibleJumpTargets_iff)
  have "getVisibleFieldIds fs vals =
      [field_id (fs ! length pre)] @ [field_id t] @ map field_id
        (filter (\<lambda>f. field_id f \<notin> possibleJumpTargets fs \<or> Some (field_id f) = Some (field_id t))
           (drop (afterIdx fs (Some (field_id t)) (length pre)) fs))"
    unfolding getVisibleFieldIds_def idx jt by (simp add: Let_def)
  also have "\<dots> = [field_id b] @ [field_id t] @ map field_id
        (filter (\<lambda>f. \<not> (field_id f \<noteq> [] \<and>
                        (\<exists>i' l' os' v' c' k. DropdownField i' l' os' v' (Some c') \<in> set fs
                                            \<and> map_of c' k = Some (field_id f)))) post)"
    unfolding nth after drop filt ..
  finally show ?thesis by simp
qed

text \<open>The statement at \<open>two_branch_fields\<close> with \<open>Yes\<close> selected: behind the target
  \<open>Q2\<close>, the target \<open>Q5\<close> of the second dropdown is held back.\<close>

theorem resolve_selected_witness:
  "yes_values ''D'' = Some (VString ''Yes'')
   \<and> getVisibleFieldIds two_branch_fields yes_values = [''D'', ''Q2'', ''Q3'', ''E'', ''Q6'']"
proof -
  have pj: "possibleJumpTargets two_branch_fields = {''Q1'', ''Q2'', ''Q5''}"
    by (auto simp: two_branch_fields_def possibleJumpTargets_def object_values_def)
  have "getVisibleFieldIds two_branch_fields yes_values =
      ''D'' # ''Q2'' # map field_id (filter (\<lambda>f. field_id f \<notin> possibleJumpTargets two_branch_fields)
         (drop 4 two_branch_fields))"
    using resolve_selected[of two_branch_fields "[TextField ''Q0'' ''Intro'' None]"
      "DropdownField ''D'' ''Pick'' [''Yes'', ''No''] None (Some [(''Yes'', ''Q2''), (''No'', ''Q1'')])"
      "[TextField ''Q1'' ''First'' None]" "TextField ''Q2'' ''Second'' None"
      "drop 4 two_branch_fields"
      "''D''" "''Pick''" "[''Yes'', ''No'']" None "[(''Yes'', ''Q2''), (''No'', ''Q1'')]"
      yes_values "''Yes''"]
    unfolding possibleJumpTargets_iff
    by (simp add: two_branch_fields_def yes_values_def)
  then show ?thesis
    unfolding pj by (simp add: two_branch_fields_def yes_values_def)
qed

text \<open>
  C8. There are a field list with pairwise distinct ids and a value map such that the
  selected jump target \<open>t\<close> lies before the branching dropdown \<open>b\<close>, the scan starts at
  \<open>t + 1\<close>, which is less than \<open>b + 1\<close>, and the result lists, after the ids of \<open>b\<close>
  and \<open>t\<close>, every field from \<open>t + 1\<close> on: the fields between the target and the
  dropdown, and the dropdown itself a second time.
\<close>

theorem resolve_backward_target:
  "\<exists>fs vals b t.
     distinct (map field_id fs)
     \<and> jumpDropdownIdx fs = Some b
     \<and> jumpTargetId fs vals = Some (field_id (fs ! t))
     \<and> t < b \<and> b < length fs
     \<and> afterIdx fs (jumpTargetId fs vals) b = t + 1
     \<and> afterIdx fs (jumpTargetId fs vals) b < b + 1
     \<and> getVisibleFieldIds fs vals
         = [field_id (fs ! b), field_id (fs ! t)] @ map field_id (drop (t + 1) fs)
     \<and> count_list (getVisibleFieldIds fs vals) (field_id (fs ! b)) = 2"
proof -
  have "distinct (map field_id backward_fields)
     \<and> jumpDropdownIdx backward_fields = Some 2
     \<and> jumpTargetId backward_fields yes_values = Some (field_id (backward_fields ! 0))
     \<and> (0::nat) < 2 \<and> 2 < length backward_fields
     \<and> afterIdx backward_fields (jumpTargetId backward_fields yes_values) 2 = 0 + 1
     \<and> afterIdx backward_fields (jumpTargetId backward_fields yes_values) 2 < 2 + 1
     \<and> getVisibleFieldIds backward_fields yes_values
         = [field_id (backward_fields ! 2), field_id (backward_fields ! 0)]
           @ map field_id (drop (0 + 1) backward_fields)
     \<and> count_list (getVisibleFieldIds backward_fields yes_values) (field_id (backward_fields ! 2)) = 2"
    by (simp add: backward_fields_def yes_values_def getVisibleFieldIds_def jumpDropdownIdx_def
        afterIdx_def possibleJumpTargets_def object_values_def)
  then show ?thesis by blast
qed

text \<open>A consequence: some result lists the id of its branching dropdown twice.\<close>

theorem resolve_backward_target_witness:
  "\<exists>fs vals b. jumpDropdownIdx fs = Some b
     \<and> count_list (getVisibleFieldIds fs vals) (field_id (fs ! b)) = 2"
  using resolve_backward_target by blast

section \<open>The client-side validator\<close>

text \<open>
  C4 (amended). Let a jump target id \<open>t\<close> be determined. When \<open>t\<close> is a member of the
  visible ids, every field whose id differs from \<open>t\<close> has its \<^verbatim>\<open>required\<close> forced to
  false: processing it does not throw and pushes no message ending in
  \<^verbatim>\<open> is required.\<close>, whatever its validation rules and its value. For the field whose
  id is \<open>t\<close>, and for every field when \<open>t\<close> is not a member of the visible ids,
  \<^verbatim>\<open>required\<close> is the field's own: with a hidden target the validator processes a
  field as it does without a jump target, and a visible text or dropdown field that is
  required and has no value gets the message that it is required.
\<close>

theorem required_only_for_jump_target:
  assumes "jumpTargetId fs vals = Some t"
  shows "(t \<in> set vis \<and> field_id f \<noteq> t \<longrightarrow>
            effectiveRequired (jumpTargetId fs vals) vis (field_id f) v = False
            \<and> (\<exists>es. validateField (jumpTargetId fs vals) vis vals f = Inr es
                   \<and> (\<forall>m\<in>set es. \<not> suffix '' is required.'' m)))
       \<and> (t \<notin> set vis \<or> field_id f = t \<longrightarrow>
            effectiveRequired (jumpTargetId fs vals) vis (field_id f) v
              = (\<exists>w. v = Some w \<and> required w = Some True))
       \<and> (t \<notin> set vis \<longrightarrow>
            validateField (jumpTargetId fs vals) vis vals f = validateField None vis vals f)
       \<and> (t \<notin> set vis \<and> i \<in> set vis \<and> required w = Some True \<and> vals i = None \<longrightarrow>
            validateField (jumpTargetId fs vals) vis vals (TextField i l (Some w))
              = Inr [l @ '' is required.'']
            \<and> validateField (jumpTargetId fs vals) vis vals (DropdownField i l os (Some w) c)
              = Inr [l @ '' is required.''])"
proof (intro conjI impI)
  assume a: "t \<in> set vis \<and> field_id f \<noteq> t"
  then show "effectiveRequired (jumpTargetId fs vals) vis (field_id f) v = False"
    by (simp add: assms effectiveRequired_suppressed)
  have "\<exists>es. validateField (Some t) vis vals f = Inr es
          \<and> (\<forall>m\<in>set es. \<not> suffix '' is required.'' m)"
  proof (cases f)
    case (TextField i l w)
    then show ?thesis using a textRules_not_required
      by (simp add: effectiveRequired_suppressed)
  next
    case (DropdownField i l os w c)
    then show ?thesis using a dropdownRules_not_required
      by (simp add: effectiveRequired_suppressed)
  next
    case (TableField i l cols m rl)
    then show ?thesis using a tableRules_not_required[of t vis i]
      by (simp split: option.splits response_value.splits)
  qed
  then show "\<exists>es. validateField (jumpTargetId fs vals) vis vals f = Inr es
                   \<and> (\<forall>m\<in>set es. \<not> suffix '' is required.'' m)"
    by (simp add: assms)
next
  assume "t \<notin> set vis \<or> field_id f = t"
  then show "effectiveRequired (jumpTargetId fs vals) vis (field_id f) v
              = (\<exists>w. v = Some w \<and> required w = Some True)"
    by (auto simp: assms effectiveRequired_def suppressed_def opt_required_def split: option.splits)
next
  assume "t \<notin> set vis"
  then show "validateField (jumpTargetId fs vals) vis vals f = validateField None vis vals f"
    by (simp add: assms validateField_hidden_target)
next
  assume a: "t \<notin> set vis \<and> i \<in> set vis \<and> required w = Some True \<and> vals i = None"
  then show "validateField (jumpTargetId fs vals) vis vals (TextField i l (Some w))
              = Inr [l @ '' is required.'']"
    by (simp add: assms effectiveRequired_hidden_target opt_required_def textRules_def
        below_min_def above_max_def split: option.splits)
  from a show "validateField (jumpTargetId fs vals) vis vals (DropdownField i l os (Some w) c)
              = Inr [l @ '' is required.'']"
    by (simp add: assms effectiveRequired_hidden_target opt_required_def dropdownRules_def)
qed

text \<open>The amended statement at \<open>scenario_fields\<close> with \<open>Yes\<close> selected: with all three
  fields visible the required \<open>Q1\<close> pushes nothing and the target \<open>Q2\<close> is required; with
  the target not among the visible ids, \<open>Q1\<close> is required.\<close>

theorem required_only_for_jump_target_witness:
  "jumpTargetId scenario_fields yes_values = Some ''Q2''
   \<and> validateField (jumpTargetId scenario_fields yes_values) [''D'', ''Q2'', ''Q1''] yes_values
       (TextField ''Q1'' ''First'' (Some required_only)) = Inr []
   \<and> validateField (jumpTargetId scenario_fields yes_values) [''D'', ''Q0'', ''Q1''] yes_values
       (TextField ''Q1'' ''First'' (Some required_only)) = Inr [''First is required.'']
   \<and> validateFormResponse yes_values scenario_fields [''D'', ''Q2'', ''Q1'']
       = Inr [''Second is required.'']"
proof -
  have jt: "jumpTargetId scenario_fields yes_values = Some ''Q2''"
    by (simp add: scenario_fields_def yes_values_def)
  have shown: "validateField (jumpTargetId scenario_fields yes_values) [''D'', ''Q2'', ''Q1'']
      yes_values (TextField ''Q1'' ''First'' (Some required_only)) = Inr []"
    using required_only_for_jump_target[OF jt, of "[''D'', ''Q2'', ''Q1'']"
        "TextField ''Q1'' ''First'' (Some required_only)" "Some required_only"]
    by (simp add: jt textRules_def effectiveRequired_def suppressed_def opt_minLength_def
        below_min_def above_max_def opt_maxLength_def required_only_def)
  have hidden: "validateField (jumpTargetId scenario_fields yes_values) [''D'', ''Q0'', ''Q1'']
      yes_values (TextField ''Q1'' ''First'' (Some required_only)) = Inr [''First is required.'']"
    using required_only_for_jump_target[OF jt, of "[''D'', ''Q0'', ''Q1'']" _ _ "''Q1''"
        required_only "''First''"]
    by (simp add: yes_values_def required_only_def)
  have "validateFormResponse yes_values scenario_fields [''D'', ''Q2'', ''Q1'']
       = Inr [''Second is required.'']"
    by (simp add: scenario_fields_def yes_values_def validateFormResponse_def textRules_def
      dropdownRules_def effectiveRequired_def suppressed_def opt_required_def opt_minLength_def
      opt_maxLength_def below_min_def above_max_def required_only_def)
  with jt shown hidden show ?thesis by simp
qed

text \<open>
  With the same form and values, and visible ids that do not contain the jump target
  \<open>Q2\<close>, the required rule is applied to \<open>Q1\<close>, which is visible and is not the target.
\<close>

theorem required_not_suppressed_counterexample:
  "jumpTargetId scenario_fields yes_values = Some ''Q2''
   \<and> field_id (scenario_fields ! 1) \<in> set [''D'', ''Q1'']
   \<and> field_id (scenario_fields ! 1) \<noteq> ''Q2''
   \<and> validateField (jumpTargetId scenario_fields yes_values) [''D'', ''Q1''] yes_values
        (scenario_fields ! 1) = Inr [''First is required.'']
   \<and> validateFormResponse yes_values scenario_fields [''D'', ''Q1'']
        = Inr [''First is required.'']"
  by (simp add: scenario_fields_def yes_values_def validateFormResponse_def textRules_def
      dropdownRules_def effectiveRequired_def suppressed_def opt_required_def opt_minLength_def
      opt_maxLength_def below_min_def above_max_def required_only_def)

text \<open>
  C5. A field whose id is not in the visible ids pushes no message and does not throw,
  and the result of \<open>validateFormResponse\<close> is the result of processing, in order, only
  the fields whose id is in the visible ids.
\<close>

theorem validate_only_visible:
  "(field_id f \<notin> set vis \<longrightarrow> validateField (jumpTargetId fs vals) vis vals f = Inr [])
   \<and> validateFormResponse vals fs vis
       = validateFields (jumpTargetId fs vals) vis vals (filter (\<lambda>f. field_id f \<in> set vis) fs)"
  using validateFields_filter[of "jumpTargetId fs vals" vis vals fs]
  by (simp add: validateField_hidden validateFormResponse_def)

text \<open>The statement at \<open>scenario_fields\<close> with \<open>Q1\<close> hidden.\<close>

theorem validate_only_visible_witness:
  "validateField (jumpTargetId scenario_fields yes_values) [''D'', ''Q2''] yes_values
      (TextField ''Q1'' ''First'' (Some required_only)) = Inr []
   \<and> validateFormResponse yes_values scenario_fields [''D'', ''Q2'']
      = validateFields (Some ''Q2'') [''D'', ''Q2''] yes_values
          [scenario_fields ! 0, scenario_fields ! 2]"
  using validate_only_visible[of "TextField ''Q1'' ''First'' (Some required_only)"
      "[''D'', ''Q2'']" scenario_fields yes_values]
  by (simp add: scenario_fields_def yes_values_def)

text \<open>
  C7. A form made of one table field (of any mode) with one required dropdown column
  with the options \<open>A\<close> and \<open>B\<close>, and a value of two rows whose first cell is absent or
  empty and whose second cell is \<open>C\<close>: when the table is visible the validator returns
  exactly the message that the cell of row 1 is required and the message that the value
  of row 2 is not valid, in this order; so does \<open>validate\<close> with the visible ids it
  computes itself.
\<close>

theorem validate_table_scenario:
  assumes "col = \<lparr>col_id = c, col_type = ColDropdown, col_label = cl,
                  col_options = Some [''A'', ''B''],
                  col_validation = Some \<lparr>required = Some True, minLength = mn, maxLength = mx\<rparr>\<rparr>"
    and "fs = [TableField i l [col] m rl]"
    and "vals i = Some (VArray [r0, r1])"
    and "r0 c = None \<or> r0 c = Some []"
    and "r1 c = Some ''C''"
  shows "(i \<in> set vis \<longrightarrow>
            validateFormResponse vals fs vis
            = Inr [cl @ '' in '' @ l @ '' row 1 is required.'',
                   cl @ '' in '' @ l @ '' row 2 value is not valid.''])
         \<and> validate vals fs
            = Inr [cl @ '' in '' @ l @ '' row 1 is required.'',
                   cl @ '' in '' @ l @ '' row 2 value is not valid.'']"
proof -
  have one: "show_nat (Suc 0) = ''1''" and two: "show_nat (Suc (Suc 0)) = ''2''"
    by (simp_all add: show_nat.simps)
  have vis: "getVisibleFieldIds fs vals = [i]"
    by (simp add: assms(2) getVisibleFieldIds_def jumpDropdownIdx_def)
  have jt: "jumpTargetId fs vals = None"
    by (simp add: assms(2))
  have cells: "cellRules l True 0 r0 col = [cl @ '' in '' @ l @ '' row 1 is required.'']"
    "cellRules l True (Suc 0) r1 col = [cl @ '' in '' @ l @ '' row 2 value is not valid.'']"
    using assms(4,5) by (auto simp: cellRules_def assms(1) one two)
  have req: "effectiveRequired None w i (col_validation col) = True" for w
    by (simp add: effectiveRequired_def suppressed_def opt_required_def assms(1))
  have tab: "tableRules l None w i [col] [r0, r1]
      = [cl @ '' in '' @ l @ '' row 1 is required.'',
         cl @ '' in '' @ l @ '' row 2 value is not valid.'']" for w
    by (simp add: tableRules_def enumerate_eq_zip upt_rec req cells)
  have "j \<in> set w \<Longrightarrow> validateFormResponse vals fs w
      = Inr [cl @ '' in '' @ l @ '' row 1 is required.'',
             cl @ '' in '' @ l @ '' row 2 value is not valid.'']" if "j = i" for j w
    using that by (simp add: validateFormResponse_def jt assms(2,3) tab)
  then show ?thesis
    by (simp add: validate_def vis)
qed

text \<open>The statement at \<open>choice_table\<close> and \<open>two_rows\<close>.\<close>

theorem validate_table_scenario_witness:
  "two_rows ''T'' = Some (VArray [Map.empty, [''c'' \<mapsto> ''C'']])
   \<and> validateFormResponse two_rows [choice_table] [''T'']
      = Inr [''Col in Tab row 1 is required.'', ''Col in Tab row 2 value is not valid.'']
   \<and> validate two_rows [choice_table]
      = Inr [''Col in Tab row 1 is required.'', ''Col in Tab row 2 value is not valid.'']"
  using validate_table_scenario[of choice_column "''c''" "''Col''" None None "[choice_table]"
      "''T''" "''Tab''" Dynamic None two_rows Map.empty "[''c'' \<mapsto> ''C'']" "[''T'']"]
  by (simp add: two_rows_def choice_table_def choice_column_def required_only_def)

section \<open>The server-side validator\<close>

text \<open>
  C6 (amended). For every form in which no field has a blank label, and every value map
  for which the client-side rules find nothing to report in the cells of the form's
  tables, \<open>validateResponse\<close> returns what the client-side validator returns with
  every field id visible and no jump target: the same rules on text and dropdown
  fields, the same message texts, the same order, and the same exception when a
  required text field holds an array. Field by field, blank label or not, the server's
  messages are the client's, preceded by \<^verbatim>\<open>Field label missing for <id>\<close> when the
  label is blank, as long as the client reports nothing in the cells of a table. For
  every field with a blank label this message is the first one the server pushes for
  the field, and it is in the result for the form whenever the server returns.
\<close>

theorem server_agrees_with_client:
  "((\<forall>f\<in>set fs. trim (label f) \<noteq> []
        \<and> (is_table f \<longrightarrow> validateField None (map field_id fs) vals f = Inr []))
     \<longrightarrow> validateResponse fs vals = spec_validateResponse fs vals)
   \<and> (field_id g \<in> set vis \<and> (is_table g \<longrightarrow> validateField None vis vals g = Inr [])
       \<longrightarrow> serverField vals g =
           (case validateField None vis vals g of
              Inl e \<Rightarrow> Inl e
            | Inr es \<Rightarrow> Inr ((if trim (label g) = []
                              then [''Field label missing for '' @ field_id g] else []) @ es)))
   \<and> (trim (label g) = [] \<longrightarrow>
         (\<forall>es. serverField vals g = Inr es \<longrightarrow>
            (\<exists>rest. es = (''Field label missing for '' @ field_id g) # rest))
       \<and> (\<forall>errs. g \<in> set fs \<and> validateResponse fs vals = Inr errs \<longrightarrow>
            ''Field label missing for '' @ field_id g \<in> set errs))"
proof (intro conjI impI allI)
  assume "\<forall>f\<in>set fs. trim (label f) \<noteq> []
        \<and> (is_table f \<longrightarrow> validateField None (map field_id fs) vals f = Inr [])"
  then show "validateResponse fs vals = spec_validateResponse fs vals"
    unfolding spec_validateResponse_def by (rule validateResponse_eq) simp
next
  assume "field_id g \<in> set vis \<and> (is_table g \<longrightarrow> validateField None vis vals g = Inr [])"
  then show "serverField vals g =
           (case validateField None vis vals g of
              Inl e \<Rightarrow> Inl e
            | Inr es \<Rightarrow> Inr ((if trim (label g) = []
                              then [''Field label missing for '' @ field_id g] else []) @ es))"
    by (intro serverField_client) simp_all
next
  fix es assume "trim (label g) = []" "serverField vals g = Inr es"
  then show "\<exists>rest. es = (''Field label missing for '' @ field_id g) # rest"
    by (rule serverField_label)
next
  fix errs assume b: "trim (label g) = []" and "g \<in> set fs \<and> validateResponse fs vals = Inr errs"
  then obtain es where es: "serverField vals g = Inr es" "set es \<subseteq> set errs"
    using validateResponse_member by blast
  from serverField_label[OF b es(1)]
  have "''Field label missing for '' @ field_id g \<in> set es" by auto
  with es(2) show "''Field label missing for '' @ field_id g \<in> set errs" by blast
qed

text \<open>The amended statement at \<open>mixed_fields\<close> and \<open>mixed_values\<close>: both validators
  require \<open>Q1\<close> and \<open>Q2\<close> and accept the table; and at \<open>blank_label_field\<close>, whose label
  of two spaces is blank.\<close>

theorem server_agrees_with_client_witness:
  "validateResponse mixed_fields mixed_values = Inr [''First is required.'', ''Second is required.'']
   \<and> spec_validateResponse mixed_fields mixed_values
       = Inr [''First is required.'', ''Second is required.'']
   \<and> validateResponse [blank_label_field] no_values = Inr [''Field label missing for Q9'']
   \<and> ''Field label missing for Q9'' \<in> set [''Field label missing for Q9'']"
proof -
  have "trim ''Pick'' \<noteq> []" "trim ''First'' \<noteq> []" "trim ''Second'' \<noteq> []" "trim ''Tab'' \<noteq> []"
    by (simp_all add: trim_def is_space_def)
  moreover have "validateField None (map field_id mixed_fields) mixed_values choice_table = Inr []"
    by (simp add: mixed_fields_def scenario_fields_def choice_table_def choice_column_def
        mixed_values_def required_only_def tableRules_def cellRules_def effectiveRequired_def
        suppressed_def opt_required_def enumerate_eq_zip upt_rec)
  ultimately have "validateResponse mixed_fields mixed_values
      = spec_validateResponse mixed_fields mixed_values"
    using server_agrees_with_client[of mixed_fields mixed_values]
    by (simp add: mixed_fields_def scenario_fields_def choice_table_def)
  moreover have "validateResponse mixed_fields mixed_values
      = Inr [''First is required.'', ''Second is required.'']"
    by (simp add: mixed_fields_def scenario_fields_def choice_table_def choice_column_def
        mixed_values_def serverField_def labelRule_def textRules_def serverTableRules_def
        serverCellRules_def
        dropdownRules_def opt_required_def opt_minLength_def opt_maxLength_def below_min_def
        above_max_def required_only_def trim_def is_space_def)
  moreover have blank: "trim ''  '' = []"
    by (simp add: trim_def is_space_def)
  have v: "validateResponse [blank_label_field] no_values = Inr [''Field label missing for Q9'']"
    by (simp add: blank_label_field_def no_values_def serverField_def labelRule_def textRules_def
        opt_required_def opt_minLength_def opt_maxLength_def below_min_def above_max_def blank)
  moreover have "''Field label missing for Q9'' \<in> set [''Field label missing for Q9'']"
    using server_agrees_with_client[of "[blank_label_field]" no_values blank_label_field] blank v
    by (simp add: blank_label_field_def)
  ultimately show ?thesis using v by simp
qed

text \<open>
  Three inputs on which the two differ. On the cells of a table the server's messages
  carry no row number; the server has no length rule for cells; and the server pushes a
  message of its own for a field whose label is blank.
\<close>

theorem server_differs_counterexample:
  "validateResponse [choice_table] two_rows \<noteq> spec_validateResponse [choice_table] two_rows
   \<and> validateResponse [choice_table] two_rows
       = Inr [''Col in Tab is required.'', ''Col in Tab value is not valid.'']
   \<and> spec_validateResponse [choice_table] two_rows
       = Inr [''Col in Tab row 1 is required.'', ''Col in Tab row 2 value is not valid.'']
   \<and> validateResponse [short_table] short_row = Inr []
   \<and> spec_validateResponse [short_table] short_row
       = Inr [''Col in Tab row 1 must be at least 3 characters.'']
   \<and> validateResponse [unlabelled_table] no_values = Inr [''Field label missing for T'']
   \<and> spec_validateResponse [unlabelled_table] no_values = Inr []"
  by (simp add: choice_table_def short_table_def unlabelled_table_def choice_column_def
      two_rows_def short_row_def no_values_def required_only_def
      spec_validateResponse_def serverField_def labelRule_def serverTableRules_def
      serverCellRules_def tableRules_def cellRules_def effectiveRequired_def suppressed_def
      opt_required_def opt_minLength_def opt_maxLength_def below_min_def above_max_def
      enumerate_eq_zip upt_rec show_nat.simps show_int_def trim_def is_space_def)

section \<open>Tables\<close>

text \<open>
  C9 (amended). Let a table field be visible. When its entry in the value map is not an
  array (absent or a string), the client-side validator pushes no message for it, and a
  form made of this table passes the client-side validation; the server's table rule
  pushes no message either, and the form passes the server-side validation when the
  label of the table is not blank; when it is blank the server returns exactly
  \<^verbatim>\<open>Field label missing for <id>\<close>, which it pushes first for such a table whatever
  the value. On the client, the table pushes a message exactly when the value is an
  array with a violating cell, in some row and column: a cell of a text column that is
  absent or blank though required (and the requirement not suppressed by a visible jump
  target other than the table), or shorter than a non-zero \<^verbatim>\<open>minLength\<close>, or longer
  than a non-zero \<^verbatim>\<open>maxLength\<close>; a cell of a dropdown column that is absent or empty
  though required; or a non-empty cell that is not among the options of its column. The
  table rule of the server pushes a message exactly for the same cells, the two length
  tests and the suppression left out.
\<close>

theorem table_without_rows:
  assumes "i \<in> set vis" and "f = TableField i l cols m rl"
  shows "(\<not> isArray (vals i) \<longrightarrow>
            validateField jt vis vals f = Inr []
            \<and> validateFormResponse vals [f] vis = Inr []
            \<and> validate vals [f] = Inr []
            \<and> serverTypeRules vals f = Inr []
            \<and> (trim l \<noteq> [] \<longrightarrow> serverField vals f = Inr [] \<and> validateResponse [f] vals = Inr [])
            \<and> (trim l = [] \<longrightarrow>
                  serverField vals f = Inr [''Field label missing for '' @ i]
                  \<and> validateResponse [f] vals = Inr [''Field label missing for '' @ i]))
       \<and> (trim l = [] \<longrightarrow>
            (\<exists>rest. serverField vals f = Inr ((''Field label missing for '' @ i) # rest)))
       \<and> (validateField jt vis vals f \<noteq> Inr [] \<longleftrightarrow>
            (\<exists>rows n col. vals i = Some (VArray rows) \<and> n < length rows \<and> col \<in> set cols \<and>
               ((col_type col = ColText
                   \<and> (\<exists>w. col_validation col = Some w \<and> required w = Some True)
                   \<and> \<not> (\<exists>t. jt = Some t \<and> i \<noteq> t \<and> t \<in> set vis)
                   \<and> ((rows ! n) (col_id col) = None
                        \<or> (\<exists>s. (rows ! n) (col_id col) = Some s \<and> trim s = [])))
                \<or> (col_type col = ColText
                   \<and> (\<exists>s w k. (rows ! n) (col_id col) = Some s \<and> col_validation col = Some w
                         \<and> minLength w = Some k \<and> k \<noteq> 0 \<and> int (length s) < k))
                \<or> (col_type col = ColText
                   \<and> (\<exists>s w k. (rows ! n) (col_id col) = Some s \<and> col_validation col = Some w
                         \<and> maxLength w = Some k \<and> k \<noteq> 0 \<and> k < int (length s)))
                \<or> (col_type col = ColDropdown
                   \<and> (\<exists>w. col_validation col = Some w \<and> required w = Some True)
                   \<and> \<not> (\<exists>t. jt = Some t \<and> i \<noteq> t \<and> t \<in> set vis)
                   \<and> ((rows ! n) (col_id col) = None \<or> (rows ! n) (col_id col) = Some []))
                \<or> (\<exists>s os. (rows ! n) (col_id col) = Some s \<and> s \<noteq> []
                       \<and> col_options col = Some os \<and> s \<notin> set os))))
       \<and> (serverTypeRules vals f \<noteq> Inr [] \<longleftrightarrow>
            (\<exists>rows n col. vals i = Some (VArray rows) \<and> n < length rows \<and> col \<in> set cols \<and>
               ((col_type col = ColText
                   \<and> (\<exists>w. col_validation col = Some w \<and> required w = Some True)
                   \<and> ((rows ! n) (col_id col) = None
                        \<or> (\<exists>s. (rows ! n) (col_id col) = Some s \<and> trim s = [])))
                \<or> (col_type col = ColDropdown
                   \<and> (\<exists>w. col_validation col = Some w \<and> required w = Some True)
                   \<and> ((rows ! n) (col_id col) = None \<or> (rows ! n) (col_id col) = Some []))
                \<or> (\<exists>s os. (rows ! n) (col_id col) = Some s \<and> s \<noteq> []
                       \<and> col_options col = Some os \<and> s \<notin> set os))))"
proof -
  have lab: "label f = l" and fid: "field_id f = i" by (simp_all add: assms(2))
  have nonarray: "validateField jt' vis' vals f = Inr []" "serverTypeRules vals f = Inr []"
    if "\<not> isArray (vals i)" for jt' vis'
    unfolding assms(2) using that
    by (rule validateField_table_not_array, rule serverTypeRules_table_not_array)
  have part1: "\<not> isArray (vals i) \<longrightarrow>
            validateField jt vis vals f = Inr []
            \<and> validateFormResponse vals [f] vis = Inr []
            \<and> validate vals [f] = Inr []
            \<and> serverTypeRules vals f = Inr []
            \<and> (trim l \<noteq> [] \<longrightarrow> serverField vals f = Inr [] \<and> validateResponse [f] vals = Inr [])
            \<and> (trim l = [] \<longrightarrow>
                  serverField vals f = Inr [''Field label missing for '' @ i]
                  \<and> validateResponse [f] vals = Inr [''Field label missing for '' @ i])"
    using nonarray
    by (simp add: validateFormResponse_def validate_def serverField_def labelRule_def lab fid)
  have "\<exists>es. serverTypeRules vals f = Inr es"
    unfolding assms(2) by (simp split: option.splits response_value.splits)
  then have part2: "trim l = [] \<longrightarrow>
      (\<exists>rest. serverField vals f = Inr ((''Field label missing for '' @ i) # rest))"
    by (auto simp: serverField_def labelRule_def lab fid)
  have client: "validateField jt vis vals f \<noteq> Inr [] \<longleftrightarrow>
      (\<exists>rows. vals i = Some (VArray rows) \<and>
         (\<exists>n<length rows. \<exists>col\<in>set cols.
            cellRules l (effectiveRequired jt vis i (col_validation col)) n (rows ! n) col \<noteq> []))"
    using assms(1) unfolding assms(2)
    by (auto simp: tableRules_Nil_iff split: option.splits response_value.splits)
  have "serverTypeRules vals f \<noteq> Inr [] \<longleftrightarrow>
      (\<exists>rows. vals i = Some (VArray rows) \<and>
         (\<exists>r\<in>set rows. \<exists>col\<in>set cols. serverCellRules l r col \<noteq> []))"
    unfolding assms(2)
    by (auto simp: serverTableRules_Nil_iff split: option.splits response_value.splits)
  then have server: "serverTypeRules vals f \<noteq> Inr [] \<longleftrightarrow>
      (\<exists>rows. vals i = Some (VArray rows) \<and>
         (\<exists>n<length rows. \<exists>col\<in>set cols. serverCellRules l (rows ! n) col \<noteq> []))"
    by (simp only: ex_set_nth)
  have part3: "validateField jt vis vals f \<noteq> Inr [] \<longleftrightarrow>
            (\<exists>rows n col. vals i = Some (VArray rows) \<and> n < length rows \<and> col \<in> set cols \<and>
               ((col_type col = ColText
                   \<and> (\<exists>w. col_validation col = Some w \<and> required w = Some True)
                   \<and> \<not> (\<exists>t. jt = Some t \<and> i \<noteq> t \<and> t \<in> set vis)
                   \<and> ((rows ! n) (col_id col) = None
                        \<or> (\<exists>s. (rows ! n) (col_id col) = Some s \<and> trim s = [])))
                \<or> (col_type col = ColText
                   \<and> (\<exists>s w k. (rows ! n) (col_id col) = Some s \<and> col_validation col = Some w
                         \<and> minLength w = Some k \<and> k \<noteq> 0 \<and> int (length s) < k))
                \<or> (col_type col = ColText
                   \<and> (\<exists>s w k. (rows ! n) (col_id col) = Some s \<and> col_validation col = Some w
                         \<and> maxLength w = Some k \<and> k \<noteq> 0 \<and> k < int (length s)))
                \<or> (col_type col = ColDropdown
                   \<and> (\<exists>w. col_validation col = Some w \<and> required w = Some True)
                   \<and> \<not> (\<exists>t. jt = Some t \<and> i \<noteq> t \<and> t \<in> set vis)
                   \<and> ((rows ! n) (col_id col) = None \<or> (rows ! n) (col_id col) = Some []))
                \<or> (\<exists>s os. (rows ! n) (col_id col) = Some s \<and> s \<noteq> []
                       \<and> col_options col = Some os \<and> s \<notin> set os)))"
    unfolding client client_cell_violation by (rule cell_quantifiers)
  have part4: "serverTypeRules vals f \<noteq> Inr [] \<longleftrightarrow>
            (\<exists>rows n col. vals i = Some (VArray rows) \<and> n < length rows \<and> col \<in> set cols \<and>
               ((col_type col = ColText
                   \<and> (\<exists>w. col_validation col = Some w \<and> required w = Some True)
                   \<and> ((rows ! n) (col_id col) = None
                        \<or> (\<exists>s. (rows ! n) (col_id col) = Some s \<and> trim s = [])))
                \<or> (col_type col = ColDropdown
                   \<and> (\<exists>w. col_validation col = Some w \<and> required w = Some True)
                   \<and> ((rows ! n) (col_id col) = None \<or> (rows ! n) (col_id col) = Some []))
                \<or> (\<exists>s os. (rows ! n) (col_id col) = Some s \<and> s \<noteq> []
                       \<and> col_options col = Some os \<and> s \<notin> set os)))"
    unfolding server serverCellRules_violation by (rule cell_quantifiers)
  from part1 part2 part3 part4 show ?thesis by (intro conjI)
qed

text \<open>The amended statement at \<open>choice_table\<close>, whose column is required: with no
  value entered both validators accept it; with \<open>two_rows\<close>, whose second row holds
  \<open>C\<close>, neither does.\<close>

theorem table_without_rows_witness:
  "\<not> isArray (no_values ''T'')
   \<and> validate no_values [choice_table] = Inr []
   \<and> validateFormResponse no_values [choice_table] [''T''] = Inr []
   \<and> validateResponse [choice_table] no_values = Inr []
   \<and> validateField None [''T''] two_rows choice_table \<noteq> Inr []
   \<and> serverTypeRules two_rows choice_table \<noteq> Inr []"
proof -
  have tab: "trim ''Tab'' \<noteq> []" by (simp add: trim_def is_space_def)
  have h1: "''T'' \<in> set [''T'']" by simp
  have h2: "choice_table = TableField ''T'' ''Tab'' [choice_column] Dynamic None"
    by (simp add: choice_table_def)
  note w = table_without_rows[OF h1 h2]
  have a: "validate no_values [choice_table] = Inr []
      \<and> validateFormResponse no_values [choice_table] [''T''] = Inr []
      \<and> validateResponse [choice_table] no_values = Inr []"
    using w[of no_values None, THEN conjunct1] tab by (simp add: no_values_def)
  have viol: "\<exists>rows n col. two_rows ''T'' = Some (VArray rows) \<and> n < length rows
      \<and> col \<in> set [choice_column]
      \<and> (\<exists>s os. (rows ! n) (col_id col) = Some s \<and> s \<noteq> []
             \<and> col_options col = Some os \<and> s \<notin> set os)"
    by (rule exI[of _ "[Map.empty, [''c'' \<mapsto> ''C'']]"], rule exI[of _ 1],
        rule exI[of _ choice_column])
       (simp add: two_rows_def choice_column_def)
  have b: "validateField None [''T''] two_rows choice_table \<noteq> Inr []"
    using w[of two_rows None, THEN conjunct2, THEN conjunct2, THEN conjunct1] viol
    by blast
  have c: "serverTypeRules two_rows choice_table \<noteq> Inr []"
    using w[of two_rows None, THEN conjunct2, THEN conjunct2, THEN conjunct2] viol
    by blast
  from a b c show ?thesis by (simp add: no_values_def)
qed

text \<open>
  The same table with an empty label and no rows entered: the client-side validator
  returns no message, the server returns its message about the label, so the form does
  not pass the server-side validation.
\<close>

theorem unlabelled_table_counterexample:
  "\<not> isArray (no_values (field_id unlabelled_table))
   \<and> is_table unlabelled_table
   \<and> opt_required (col_validation (columns unlabelled_table ! 0)) = Some True
   \<and> validateFormResponse no_values [unlabelled_table] [''T''] = Inr []
   \<and> validateResponse [unlabelled_table] no_values = Inr [''Field label missing for T'']
   \<and> validateResponse [unlabelled_table] no_values \<noteq> Inr []"
  by (simp add: unlabelled_table_def choice_column_def no_values_def required_only_def
      validateFormResponse_def serverField_def labelRule_def opt_required_def trim_def)

text \<open>
  C10 (amended). In a table field with an array value, every non-empty cell whose column
  carries an options array that does not contain the cell's value makes each validator
  push its message that the value is not valid, with no hypothesis on the declared type
  of the column. On the client, for a visible table, the text names the row, counted
  from 1: \<^verbatim>\<open><col> in <field> row <n> value is not valid.\<close> On the server the text has
  no row number: \<^verbatim>\<open><col> in <field> value is not valid.\<close> In both cases the message
  is among those of the field, and among those of the whole form whenever the validator
  returns.
\<close>

theorem cell_membership_any_column_type:
  assumes "TableField i l cols m rl \<in> set fs"
    and "vals i = Some (VArray rows)" and "n < length rows" and "col \<in> set cols"
    and "(rows ! n) (col_id col) = Some cell" and "cell \<noteq> []"
    and "col_options col = Some os" and "cell \<notin> set os"
  shows "(i \<in> set vis \<longrightarrow>
            (\<exists>es. validateField (jumpTargetId fs vals) vis vals (TableField i l cols m rl) = Inr es
               \<and> col_label col @ '' in '' @ l @ '' row '' @ show_nat (n + 1) @ '' value is not valid.''
                   \<in> set es)
            \<and> (\<forall>errs. validateFormResponse vals fs vis = Inr errs \<longrightarrow>
                 col_label col @ '' in '' @ l @ '' row '' @ show_nat (n + 1) @ '' value is not valid.''
                   \<in> set errs))
       \<and> (\<exists>es. serverField vals (TableField i l cols m rl) = Inr es
              \<and> col_label col @ '' in '' @ l @ '' value is not valid.'' \<in> set es)
       \<and> (\<forall>errs. validateResponse fs vals = Inr errs \<longrightarrow>
              col_label col @ '' in '' @ l @ '' value is not valid.'' \<in> set errs)"
proof (intro conjI impI)
  let ?msg = "col_label col @ '' in '' @ l @ '' row '' @ show_nat (n + 1) @ '' value is not valid.''"
  let ?smsg = "col_label col @ '' in '' @ l @ '' value is not valid.''"
  let ?jt = "jumpTargetId fs vals"
  let ?f = "TableField i l cols m rl"
  have smem: "?smsg \<in> set (serverCellRules l (rows ! n) col)"
    using assms(5-8) by (simp add: serverCellRules_def Let_def)
  have "rows ! n \<in> set rows" using assms(3) by simp
  then have "set (serverCellRules l (rows ! n) col) \<subseteq> set (serverTableRules l cols rows)"
    using assms(4) by (rule serverTableRules_cell)
  with smem have "?smsg \<in> set (serverTableRules l cols rows)" by blast
  then have sfield: "serverField vals ?f = Inr (labelRule ?f @ serverTableRules l cols rows)
      \<and> ?smsg \<in> set (labelRule ?f @ serverTableRules l cols rows)"
    by (simp add: serverField_def assms(2))
  then show "\<exists>es. serverField vals ?f = Inr es \<and> ?smsg \<in> set es" by blast
  show "\<forall>errs. validateResponse fs vals = Inr errs \<longrightarrow> ?smsg \<in> set errs"
  proof (intro allI impI)
    fix errs assume "validateResponse fs vals = Inr errs"
    from validateResponse_member[OF this assms(1)] sfield show "?smsg \<in> set errs" by auto
  qed
  assume vis: "i \<in> set vis"
  have "?msg \<in> set (cellRules l (effectiveRequired ?jt vis i (col_validation col)) n (rows ! n) col)"
    using assms(5-8) by (rule cellRules_membership)
  then have "?msg \<in> set (tableRules l ?jt vis i cols rows)"
    using tableRules_cell[OF assms(3,4)] by blast
  then have field: "validateField ?jt vis vals ?f = Inr (tableRules l ?jt vis i cols rows)
      \<and> ?msg \<in> set (tableRules l ?jt vis i cols rows)"
    by (simp add: vis assms(2))
  then show "\<exists>es. validateField ?jt vis vals ?f = Inr es \<and> ?msg \<in> set es" by blast
  show "\<forall>errs. validateFormResponse vals fs vis = Inr errs \<longrightarrow> ?msg \<in> set errs"
  proof (intro allI impI)
    fix errs assume "validateFormResponse vals fs vis = Inr errs"
    then have "validateFields ?jt vis vals fs = Inr errs"
      by (simp add: validateFormResponse_def)
    from validateFields_member[OF this assms(1)] field show "?msg \<in> set errs" by auto
  qed
qed

text \<open>The amended statement at \<open>text_choice_table\<close>, whose column is typed as text
  and carries options, with the cell \<open>C\<close> in row 2.\<close>

theorem cell_membership_any_column_type_witness:
  "col_type (columns text_choice_table ! 0) = ColText
   \<and> validateFormResponse two_rows [text_choice_table] [''T'']
      = Inr [''Col in Tab row 1 is required.'', ''Col in Tab row 2 value is not valid.'']
   \<and> ''Col in Tab row 2 value is not valid.''
      \<in> set [''Col in Tab row 1 is required.'', ''Col in Tab row 2 value is not valid.'']
   \<and> validateResponse [text_choice_table] two_rows
      = Inr [''Col in Tab is required.'', ''Col in Tab value is not valid.'']
   \<and> ''Col in Tab value is not valid.''
      \<in> set [''Col in Tab is required.'', ''Col in Tab value is not valid.'']"
proof -
  have v: "validateFormResponse two_rows [text_choice_table] [''T'']
      = Inr [''Col in Tab row 1 is required.'', ''Col in Tab row 2 value is not valid.'']"
    by (simp add: text_choice_table_def choice_column_def two_rows_def required_only_def
      validateFormResponse_def tableRules_def cellRules_def effectiveRequired_def suppressed_def
      opt_required_def opt_minLength_def opt_maxLength_def below_min_def above_max_def
      enumerate_eq_zip upt_rec show_nat.simps trim_def is_space_def)
  have s: "validateResponse [text_choice_table] two_rows
      = Inr [''Col in Tab is required.'', ''Col in Tab value is not valid.'']"
    by (simp add: text_choice_table_def choice_column_def two_rows_def required_only_def
      serverField_def labelRule_def serverTableRules_def serverCellRules_def
      opt_required_def trim_def is_space_def)
  note w = cell_membership_any_column_type[of "''T''" "''Tab''"
        "[choice_column\<lparr>col_type := ColText\<rparr>]" Dynamic None "[text_choice_table]"
        two_rows "[Map.empty, [''c'' \<mapsto> ''C'']]" 1 "choice_column\<lparr>col_type := ColText\<rparr>"
        "''C''" "[''A'', ''B'']" "[''T'']"]
  have "''Col'' @ '' in '' @ ''Tab'' @ '' row '' @ show_nat (1 + 1) @ '' value is not valid.''
      \<in> set [''Col in Tab row 1 is required.'', ''Col in Tab row 2 value is not valid.'']
      \<and> ''Col'' @ '' in '' @ ''Tab'' @ '' value is not valid.''
      \<in> set [''Col in Tab is required.'', ''Col in Tab value is not valid.'']"
    using w v s by (simp add: text_choice_table_def choice_column_def two_rows_def)
  then show ?thesis using v s
    by (simp add: text_choice_table_def show_nat.simps)
qed

text \<open>
  On the same input the server's message for the cell \<open>C\<close> of row 2 carries no row
  number: the message with \<open>row 2\<close> is not in its result.
\<close>

theorem server_membership_counterexample:
  "validateResponse [text_choice_table] two_rows
      = Inr [''Col in Tab is required.'', ''Col in Tab value is not valid.'']
   \<and> ''Col in Tab row 2 value is not valid.''
      \<notin> set [''Col in Tab is required.'', ''Col in Tab value is not valid.'']"
  by (simp add: text_choice_table_def choice_column_def two_rows_def required_only_def
      serverField_def labelRule_def serverTableRules_def serverCellRules_def
      opt_required_def trim_def is_space_def)

end
